theory Spec2Isabelle
  imports Complex_Main
begin

unbundle bit_operations_syntax

section \<open>GRIB message to cube metadata: the data model\<close>

text \<open>
  The development embeds the package \<^verbatim>\<open>iris.fileformats.grib._load_convert\<close>:
  \<^verbatim>\<open>__init__.py\<close> (\<^verbatim>\<open>convert\<close>), \<^verbatim>\<open>_common.py\<close>
  (\<^verbatim>\<open>scanning_mode\<close>, \<^verbatim>\<open>projection_centre\<close>, the centre table) and
  \<^verbatim>\<open>_edition1.py\<close> (\<^verbatim>\<open>resolution_flags\<close>, \<^verbatim>\<open>grid_definition_template_0\<close>,
  \<^verbatim>\<open>grib1_convert\<close>).

  Conventions.
  \<^item> Python integers are \<open>int\<close>; \<open>&\<close> is \<open>AND\<close> on \<open>int\<close> (two's complement on both
    sides) and \<open>bool(n)\<close> of an integer is \<open>n \<noteq> 0\<close>.
  \<^item> An exception is a value of type \<open>error\<close>; a function that may raise returns
    \<open>error + 'a\<close> with \<open>Inl\<close> for the exception.
  \<^item> A function that mutates the metadata dictionary it is given returns the pair of its
    outcome and the dictionary as it is left behind, also when it raises.
  \<^item> A function body reads a global name in the namespace of its own file, and a name
    that the file does not bind raises \<^verbatim>\<open>NameError\<close> where it is read. The namespace
    is the first argument of the function; the namespace each file really has is a
    constant (\<open>common_globals\<close>, \<open>edition1_globals\<close>), read off the import and
    assignment statements of the file.
  \<^item> Floats, arrays, coordinate systems and coordinates are values of the modules that a
    namespace would bind (\<^verbatim>\<open>np\<close>, \<^verbatim>\<open>icoord_systems\<close>, \<^verbatim>\<open>DimCoord\<close>). Their types
    \<open>float64\<close>, \<open>ndarray\<close>, \<open>CoordinateSystem\<close> and \<open>Coordinate\<close> are declared
    and nothing more, and their operations are fields of the binding: nothing is said about
    floating-point arithmetic.
\<close>

text \<open>
  \<^verbatim>\<open>TranslationError(msg)\<close> is the exception of \<^verbatim>\<open>iris.exceptions\<close>;
  \<^verbatim>\<open>NameError\<close> carries the name that is not bound. What a value bound in a namespace
  may raise besides is \<open>OtherException\<close>, with the name of its class.
\<close>

datatype error = TranslationError string | NameError string | OtherException string

text \<open>Reading the global \<^verbatim>\<open>name\<close>: its binding, or \<^verbatim>\<open>NameError\<close>.\<close>

definition global_name :: "string \<Rightarrow> 'x option \<Rightarrow> error + 'x" where
  "global_name name binding =
     (case binding of None \<Rightarrow> Inl (NameError name) | Some v \<Rightarrow> Inr v)"

text \<open>One statement after another: an exception ends the sequence.\<close>

definition and_then :: "error + 'x \<Rightarrow> ('x \<Rightarrow> error + 'y) \<Rightarrow> error + 'y" where
  "and_then m f = (case m of Inl e \<Rightarrow> Inl e | Inr v \<Rightarrow> f v)"

subsection \<open>The message\<close>

text \<open>
  A message exposes \<^verbatim>\<open>field.sections[i][key]\<close>. Each section is the record of the keys
  the code reads from it, typed as the decoder delivers them: coded integers, and a
  string for the originating centre.
\<close>

record indicator_section =
  editionNumber :: int

record product_section =
  centre :: string

record grid_section =
  PLPresent :: int
  scanningMode :: int
  iDirectionIncrement :: int
  longitudeOfFirstGridPoint :: int
  Ni :: int
  jDirectionIncrement :: int
  latitudeOfFirstGridPoint :: int
  Nj :: int

record grib_message =
  section0 :: indicator_section
  section1 :: product_section
  section2 :: grid_section

subsection \<open>The metadata\<close>

typedecl float64
typedecl ndarray
typedecl CoordinateSystem
typedecl Coordinate

typedecl FactoryDefinition
typedecl ReferenceDefinition
typedecl CellMethod

text \<open>
  The ordered dictionary that \<^verbatim>\<open>convert\<close> fills, and whose values become the fields of
  \<^verbatim>\<open>ConversionMetadata\<close> in the same order.
\<close>

record metadata =
  factories :: "FactoryDefinition list"
  references :: "ReferenceDefinition list"
  standard_name :: "string option"
  long_name :: "string option"
  units :: "string option"
  attributes :: "string \<rightharpoonup> string"
  cell_methods :: "CellMethod list"
  dim_coords_and_dims :: "(Coordinate \<times> int) list"
  aux_coords_and_dims :: "(Coordinate \<times> int) list"

section \<open>The file \<^verbatim>\<open>_common.py\<close>\<close>

record ScanningMode =
  i_negative :: bool
  j_positive :: bool
  j_consecutive :: bool
  i_alternative :: bool

record ProjectionCentre =
  south_pole_on_projection_plane :: bool
  bipolar_and_symmetric :: bool

text \<open>
  The one global that a body of \<^verbatim>\<open>_common.py\<close> reads and the file may lack:
  \<^verbatim>\<open>TranslationError\<close>, a class, given by what calling it makes of a message.
  \<^verbatim>\<open>ScanningMode\<close> and \<^verbatim>\<open>ProjectionCentre\<close> are assigned in the file and \<^verbatim>\<open>bool\<close>
  is a builtin.
\<close>

record common_namespace =
  c_TranslationError :: "(string \<Rightarrow> error) option"

text \<open>
  The file has two import statements, \<^verbatim>\<open>from __future__ import (absolute_import,
  division, print_function)\<close> and \<^verbatim>\<open>from collections import namedtuple\<close>: it does not
  bind \<^verbatim>\<open>TranslationError\<close>.
\<close>

definition common_globals :: common_namespace where
  "common_globals = \<lparr>c_TranslationError = None\<rparr>"

definition projection_centre :: "int \<Rightarrow> ProjectionCentre" where
  "projection_centre projectionCentreFlag =
     (let south_pole = (projectionCentreFlag AND 0x80 \<noteq> 0);
          bipolar = (projectionCentreFlag AND 0x40 \<noteq> 0)
      in \<lparr>south_pole_on_projection_plane = south_pole, bipolar_and_symmetric = bipolar\<rparr>)"

definition scanning_mode :: "common_namespace \<Rightarrow> int \<Rightarrow> error + ScanningMode" where
  "scanning_mode ns flags =
     (let i_neg = (flags AND 0x80 \<noteq> 0);
          j_pos = (flags AND 0x40 \<noteq> 0);
          j_con = (flags AND 0x20 \<noteq> 0);
          i_alt = (flags AND 0x10 \<noteq> 0)
      in if i_alt
         then and_then (global_name ''TranslationError'' (c_TranslationError ns))
                (\<lambda>exc. Inl (exc
                  ''Grid definition section 3 contains unsupported alternative row scanning mode''))
         else Inr \<lparr>i_negative = i_neg, j_positive = j_pos,
                   j_consecutive = j_con, i_alternative = i_alt\<rparr>)"

text \<open>\<^verbatim>\<open>_CENTRES\<close>, Common Code Table C-1; \<^verbatim>\<open>d.get(k)\<close> on a dictionary is the application \<open>d k\<close>.\<close>

definition CENTRES :: "string \<rightharpoonup> string" where
  "CENTRES = [''ecmf'' \<mapsto> ''European Centre for Medium Range Weather Forecasts'']"

section \<open>The file \<^verbatim>\<open>_edition1.py\<close>\<close>

record ResolutionFlags =
  i_increments_given :: bool
  j_increments_given :: bool
  uv_resolved :: bool

text \<open>
  \<^verbatim>\<open>resolution_flags\<close> computes its three flags and ends there: the body has no
  \<^verbatim>\<open>return\<close>, so the call yields Python's \<^verbatim>\<open>None\<close>, here \<open>None\<close>. It reads no global
  but the builtin \<^verbatim>\<open>bool\<close>.
\<close>

definition resolution_flags :: "int \<Rightarrow> ResolutionFlags option" where
  "resolution_flags resolutionAndComponentFlags =
     (let inc_given = (resolutionAndComponentFlags AND 0x20 \<noteq> 0);
          j_inc_given = (resolutionAndComponentFlags AND 0x10 \<noteq> 0);
          uv_res = (resolutionAndComponentFlags AND 0x08 \<noteq> 0)
      in None)"

text \<open>
  \<^verbatim>\<open>np\<close>, as far as the builder uses it: \<^verbatim>\<open>np.arange(N, dtype=np.float64)\<close>, an
  array times a float, an array times an integer and an array plus a float.
\<close>

record numpy =
  arange_float64 :: "int \<Rightarrow> error + ndarray"
  times_float :: "ndarray \<Rightarrow> float64 \<Rightarrow> ndarray"
  times_int :: "ndarray \<Rightarrow> int \<Rightarrow> ndarray"
  plus_float :: "ndarray \<Rightarrow> float64 \<Rightarrow> ndarray"

text \<open>
  The globals that the bodies of \<^verbatim>\<open>grid_definition_template_0\<close> and \<^verbatim>\<open>grib1_convert\<close>
  read, each with what the body does with its value:
  \<^item> \<^verbatim>\<open>icoord_systems\<close>, a module: its \<^verbatim>\<open>GeogCS\<close>, from a radius to a coordinate system;
  \<^item> \<^verbatim>\<open>TranslationError\<close>, a class: from a message to the exception;
  \<^item> \<^verbatim>\<open>scanning_mode\<close>, a function of the scanning mode;
  \<^item> \<^verbatim>\<open>_GRID_ACCURACY_IN_DEGREES_GRIB1\<close>, a float \<open>c\<close>: the product \<open>n * c\<close> as a
    function of the coded integer \<open>n\<close>;
  \<^item> \<^verbatim>\<open>np\<close>, a module;
  \<^item> \<^verbatim>\<open>_is_circular\<close>, a function of the points and the modulus, the float literal
    \<^verbatim>\<open>360.0\<close> being the number 360;
  \<^item> \<^verbatim>\<open>DimCoord\<close>, a class: the call with the points, \<^verbatim>\<open>standard_name\<close>,
    \<^verbatim>\<open>units\<close>, \<^verbatim>\<open>coord_system\<close> and \<^verbatim>\<open>circular\<close> (\<open>None\<close> where the call passes
    none);
  \<^item> \<^verbatim>\<open>_CENTRES\<close>, a dictionary;
  \<^item> \<^verbatim>\<open>grid_definition_section_grib1\<close>, a function of a section and the metadata.
\<close>

record edition1_namespace =
  g_icoord_systems :: "(int \<Rightarrow> CoordinateSystem) option"
  g_TranslationError :: "(string \<Rightarrow> error) option"
  g_scanning_mode :: "(int \<Rightarrow> error + ScanningMode) option"
  g_GRID_ACCURACY_IN_DEGREES_GRIB1 :: "(int \<Rightarrow> error + float64) option"
  g_np :: "numpy option"
  g_is_circular :: "(ndarray \<Rightarrow> real \<Rightarrow> error + bool) option"
  g_DimCoord ::
    "(ndarray \<Rightarrow> string \<Rightarrow> string \<Rightarrow> CoordinateSystem \<Rightarrow> bool option
        \<Rightarrow> error + Coordinate) option"
  g_CENTRES :: "(string \<rightharpoonup> string) option"
  g_grid_definition_section_grib1 ::
    "(grid_section \<Rightarrow> metadata \<Rightarrow> (error + unit) \<times> metadata) option"

text \<open>
  The file has no import statement. It assigns \<^verbatim>\<open>ResolutionFlags\<close> and defines
  \<^verbatim>\<open>resolution_flags\<close>, \<^verbatim>\<open>grid_definition_template_0\<close> and \<^verbatim>\<open>grib1_convert\<close>; between
  the first two of the functions stands the line
  \<^verbatim>\<open>def grid_type_regular_ll(section, metadata)\<close>, with neither colon nor body. None of
  the nine names is bound.
\<close>

definition edition1_globals :: edition1_namespace where
  "edition1_globals =
     \<lparr>g_icoord_systems = None, g_TranslationError = None, g_scanning_mode = None,
      g_GRID_ACCURACY_IN_DEGREES_GRIB1 = None, g_np = None, g_is_circular = None,
      g_DimCoord = None, g_CENTRES = None, g_grid_definition_section_grib1 = None\<rparr>"

text \<open>
  \<^verbatim>\<open>grid_definition_template_0(section, metadata)\<close>, statement by statement. Everything
  up to the two \<^verbatim>\<open>append\<close> calls only computes, so an exception leaves the metadata as
  it was; the \<^verbatim>\<open>append\<close> calls do not raise.
\<close>

definition grid_definition_template_0 ::
  "edition1_namespace \<Rightarrow> grid_section \<Rightarrow> metadata \<Rightarrow> (error + unit) \<times> metadata" where
  "grid_definition_template_0 ns section md =
     (case
        and_then (global_name ''icoord_systems'' (g_icoord_systems ns)) (\<lambda>GeogCS.
        let cs = GeogCS 6371229 in
        and_then
          (if PLPresent section \<noteq> 0
           then and_then (global_name ''TranslationError'' (g_TranslationError ns))
                  (\<lambda>exc. Inl (exc
                    ''Grid definition section 2 contains unsupported quasi-regular grid''))
           else Inr ()) (\<lambda>_.
        and_then (global_name ''scanning_mode'' (g_scanning_mode ns)) (\<lambda>scanning_mode_fn.
        and_then (scanning_mode_fn (scanningMode section)) (\<lambda>scan.
        and_then (global_name ''_GRID_ACCURACY_IN_DEGREES_GRIB1''
                    (g_GRID_ACCURACY_IN_DEGREES_GRIB1 ns)) (\<lambda>times_accuracy.
        and_then (times_accuracy (iDirectionIncrement section)) (\<lambda>x_inc.
        and_then (times_accuracy (longitudeOfFirstGridPoint section)) (\<lambda>x_offset.
        let x_direction = (if i_negative scan then - 1 else 1 :: int) in
        and_then (global_name ''np'' (g_np ns)) (\<lambda>np.
        and_then (arange_float64 np (Ni section)) (\<lambda>x_range.
        let x_points = plus_float np
                         (times_int np (times_float np x_range x_inc) x_direction) x_offset in
        and_then (global_name ''_is_circular'' (g_is_circular ns)) (\<lambda>is_circular.
        and_then (is_circular x_points 360) (\<lambda>circ.
        and_then (times_accuracy (jDirectionIncrement section)) (\<lambda>y_inc.
        and_then (times_accuracy (latitudeOfFirstGridPoint section)) (\<lambda>y_offset.
        let y_direction = (if j_positive scan then 1 else - 1 :: int) in
        and_then (arange_float64 np (Nj section)) (\<lambda>y_range.
        let y_points = plus_float np
                         (times_int np (times_float np y_range y_inc) y_direction) y_offset in
        and_then (global_name ''DimCoord'' (g_DimCoord ns)) (\<lambda>DimCoord.
        and_then (DimCoord y_points ''latitude'' ''degrees'' cs None) (\<lambda>y_coord.
        and_then (DimCoord x_points ''longitude'' ''degrees'' cs (Some circ)) (\<lambda>x_coord.
        let (y_dim, x_dim) = (if j_consecutive scan then (1, 0) else (0, 1 :: int))
        in Inr ((y_coord, y_dim), (x_coord, x_dim)))))))))))))))))))
      of
        Inl e \<Rightarrow> (Inl e, md)
      | Inr (y_entry, x_entry) \<Rightarrow>
          (let md1 = md\<lparr>dim_coords_and_dims := dim_coords_and_dims md @ [y_entry]\<rparr>;
               md2 = md1\<lparr>dim_coords_and_dims := dim_coords_and_dims md1 @ [x_entry]\<rparr>
           in (Inr (), md2)))"

text \<open>
  \<^verbatim>\<open>grib1_convert(field, metadata)\<close>. \<^verbatim>\<open>_CENTRES\<close> is read before anything else of the
  first statement; the attribute, once set, stays set when the grid definition step raises.
\<close>

definition grib1_convert ::
  "edition1_namespace \<Rightarrow> grib_message \<Rightarrow> metadata \<Rightarrow> (error + unit) \<times> metadata" where
  "grib1_convert ns field md =
     (case global_name ''_CENTRES'' (g_CENTRES ns) of
        Inl e \<Rightarrow> (Inl e, md)
      | Inr centres \<Rightarrow>
          (let centre_name = centres (centre (section1 field));
               md1 = (case centre_name of
                        None \<Rightarrow> md
                      | Some c \<Rightarrow> md\<lparr>attributes := (attributes md)(''centre'' \<mapsto> c)\<rparr>)
           in case global_name ''grid_definition_section_grib1''
                     (g_grid_definition_section_grib1 ns) of
                Inl e \<Rightarrow> (Inl e, md1)
              | Inr grid_definition_section_grib1 \<Rightarrow>
                  grid_definition_section_grib1 (section2 field) md1))"

section \<open>The file \<^verbatim>\<open>__init__.py\<close>\<close>

text \<open>Python's \<^verbatim>\<open>str\<close> of an integer, which \<^verbatim>\<open>'{}'.format\<close> inserts.\<close>

fun str_nat :: "nat \<Rightarrow> string" where
  "str_nat n =
     (if n < 10 then [''0123456789'' ! n]
      else str_nat (n div 10) @ [''0123456789'' ! (n mod 10)])"

declare str_nat.simps [simp del]

definition str_int :: "int \<Rightarrow> string" where
  "str_int i = (if i < 0 then CHR ''-'' # str_nat (nat (- i)) else str_nat (nat i))"

definition initial_metadata :: metadata where
  "initial_metadata =
     \<lparr>factories = [], references = [], standard_name = None, long_name = None,
      units = None, attributes = Map.empty, cell_methods = [],
      dim_coords_and_dims = [], aux_coords_and_dims = []\<rparr>"

text \<open>
  \<^verbatim>\<open>convert(field)\<close>. The file imports every name the body reads: \<^verbatim>\<open>OrderedDict\<close>,
  \<^verbatim>\<open>TranslationError\<close>, \<^verbatim>\<open>ConversionMetadata\<close>, \<^verbatim>\<open>grib1_convert\<close> and
  \<^verbatim>\<open>grib2_convert\<close>. \<^verbatim>\<open>grib1_convert\<close> runs in the namespace of \<^verbatim>\<open>_edition1.py\<close>, the
  first argument here. The module \<^verbatim>\<open>_edition2\<close> is not under src/: \<^verbatim>\<open>grib2_convert\<close> is
  the second argument. An exception of a converter leaves \<^verbatim>\<open>convert\<close> before its
  \<^verbatim>\<open>return\<close>, and the dictionary built so far is dropped.
\<close>

definition convert ::
  "edition1_namespace
     \<Rightarrow> (grib_message \<Rightarrow> metadata \<Rightarrow> (error + unit) \<times> metadata)
     \<Rightarrow> grib_message \<Rightarrow> error + metadata" where
  "convert ns grib2_convert field =
     (let edition = editionNumber (section0 field);
          md = initial_metadata
      in if edition = 1 then
           (case grib1_convert ns field md of
              (Inl e, _) \<Rightarrow> Inl e
            | (Inr _, md') \<Rightarrow> Inr md')
         else if edition = 2 then
           (case grib2_convert field md of
              (Inl e, _) \<Rightarrow> Inl e
            | (Inr _, md') \<Rightarrow> Inr md')
         else Inl (TranslationError
                (''GRIB edition '' @ str_int edition @ '' is not supported'')))"

section \<open>Reading a decimal string back\<close>

text \<open>
  Python's \<^verbatim>\<open>int(s)\<close> on a decimal string with an optional leading minus sign. It is
  what a reader of an error message does with the number written there by \<open>str_int\<close>.
\<close>

definition digit_value :: "char \<Rightarrow> nat" where
  "digit_value c = of_char c - 48"

definition decimal_value :: "string \<Rightarrow> nat" where
  "decimal_value s = foldl (\<lambda>a c. 10 * a + digit_value c) 0 s"

definition int_of_str :: "string \<Rightarrow> int" where
  "int_of_str s =
     (case s of
        [] \<Rightarrow> 0
      | c # ds \<Rightarrow> if c = CHR ''-'' then - int (decimal_value ds) else int (decimal_value s))"

section \<open>Sample messages\<close>

text \<open>
  Concrete inputs for the worked examples. \<open>demo_section\<close> is a 3 by 4 regular grid
  scanned westwards and southwards, with the increment 1 and the first longitude 0.
  \<open>globe_section\<close> is a grid of 360 longitudes from 0 with the increment 1.
  \<open>skip_grib2\<close> stands in for the edition 2 converter, which is not under src/.
\<close>

definition demo_section :: grid_section where
  "demo_section =
     \<lparr>PLPresent = 0, scanningMode = 0x80,
      iDirectionIncrement = 1, longitudeOfFirstGridPoint = 0, Ni = 4,
      jDirectionIncrement = 2, latitudeOfFirstGridPoint = 10, Nj = 3\<rparr>"

definition globe_section :: grid_section where
  "globe_section =
     \<lparr>PLPresent = 0, scanningMode = 0x00,
      iDirectionIncrement = 1, longitudeOfFirstGridPoint = 0, Ni = 360,
      jDirectionIncrement = 1, latitudeOfFirstGridPoint = 90, Nj = 181\<rparr>"

definition demo_message :: grib_message where
  "demo_message =
     \<lparr>section0 = \<lparr>editionNumber = 1\<rparr>, section1 = \<lparr>centre = ''ecmf''\<rparr>,
      section2 = demo_section\<rparr>"

definition skip_grib2 :: "grib_message \<Rightarrow> metadata \<Rightarrow> (error + unit) \<times> metadata" where
  "skip_grib2 field md = (Inr (), md)"

section \<open>Bits of an integer\<close>

lemma and_mask_bit:
  fixes a :: int
  shows "(a AND 2 ^ n \<noteq> 0) = bit a n"
  by (simp add: and_exp_eq_0_iff_not_bit)

lemma and_0x80: "((a::int) AND 0x80 \<noteq> 0) = bit a 7"
  using and_mask_bit [of a 7] by simp

lemma and_0x40: "((a::int) AND 0x40 \<noteq> 0) = bit a 6"
  using and_mask_bit [of a 6] by simp

lemma and_0x20: "((a::int) AND 0x20 \<noteq> 0) = bit a 5"
  using and_mask_bit [of a 5] by simp

lemma and_0x10: "((a::int) AND 0x10 \<noteq> 0) = bit a 4"
  using and_mask_bit [of a 4] by simp

section \<open>The decoder of the scanning mode, bit by bit\<close>

text \<open>
  In any namespace the decoder returns the three flags when bit 4 (\<open>0x10\<close>) is clear.
  When it is set, the outcome is that of reading \<^verbatim>\<open>TranslationError\<close>.
\<close>

lemma scanning_mode_bits:
  "scanning_mode ns flags =
     (if bit flags 4
      then (case c_TranslationError ns of
              None \<Rightarrow> Inl (NameError ''TranslationError'')
            | Some exc \<Rightarrow> Inl (exc
                ''Grid definition section 3 contains unsupported alternative row scanning mode''))
      else Inr \<lparr>i_negative = bit flags 7, j_positive = bit flags 6,
                j_consecutive = bit flags 5, i_alternative = False\<rparr>)"
  by (simp add: scanning_mode_def Let_def and_0x80 and_0x40 and_0x20 and_0x10
      and_then_def global_name_def split: option.splits)

section \<open>The functions of \<^verbatim>\<open>_edition1.py\<close> in the namespace of the file\<close>

text \<open>
  The first statement of the builder reads \<^verbatim>\<open>icoord_systems\<close>, and the first statement
  of \<^verbatim>\<open>grib1_convert\<close> reads \<^verbatim>\<open>_CENTRES\<close>. In a namespace that binds neither, both
  functions raise \<^verbatim>\<open>NameError\<close> on every input and leave the metadata as they found it.
\<close>

lemma builder_unbound:
  "g_icoord_systems ns = None \<Longrightarrow>
   grid_definition_template_0 ns section md = (Inl (NameError ''icoord_systems''), md)"
  by (simp add: grid_definition_template_0_def and_then_def global_name_def)

lemma builder_in_file:
  "grid_definition_template_0 edition1_globals section md =
     (Inl (NameError ''icoord_systems''), md)"
  by (simp add: builder_unbound edition1_globals_def)

lemma grib1_convert_in_file:
  "grib1_convert edition1_globals field md = (Inl (NameError ''_CENTRES''), md)"
  by (simp add: grib1_convert_def global_name_def edition1_globals_def)

section \<open>The decimal string of an integer reads back as the integer\<close>

lemma below_ten: "n < 10 \<Longrightarrow> n \<in> {0, 1, 2, 3, 4, 5, 6, 7, 8, 9 :: nat}"
  by auto

lemma digit_value_nth: "n < 10 \<Longrightarrow> digit_value (''0123456789'' ! n) = n"
  using below_ten [of n] by (auto simp: digit_value_def)

lemma digit_not_minus: "n < 10 \<Longrightarrow> ''0123456789'' ! n \<noteq> CHR ''-''"
  using below_ten [of n] by auto

lemma decimal_value_snoc:
  "decimal_value (s @ [c]) = 10 * decimal_value s + digit_value c"
  by (simp add: decimal_value_def)

lemma decimal_value_str_nat: "decimal_value (str_nat n) = n"
proof (induction n rule: str_nat.induct)
  case (1 n)
  show ?case
  proof (cases "n < 10")
    case True
    then show ?thesis
      by (subst str_nat.simps) (simp add: decimal_value_def digit_value_nth)
  next
    case False
    have "n mod 10 < 10" by simp
    with False 1 show ?thesis
      by (subst str_nat.simps) (simp add: decimal_value_snoc digit_value_nth)
  qed
qed

lemma str_nat_not_empty: "str_nat n \<noteq> []"
  by (subst str_nat.simps) simp

lemma hd_str_nat_not_minus: "hd (str_nat n) \<noteq> CHR ''-''"
proof (induction n rule: str_nat.induct)
  case (1 n)
  show ?case
  proof (cases "n < 10")
    case True
    then show ?thesis
      by (subst str_nat.simps) (simp add: digit_not_minus)
  next
    case False
    with 1 show ?thesis
      by (subst str_nat.simps) (simp add: str_nat_not_empty)
  qed
qed

lemma int_of_str_str_int: "int_of_str (str_int i) = i"
proof (cases "i < 0")
  case True
  then show ?thesis
    by (simp add: int_of_str_def str_int_def decimal_value_str_nat)
next
  case False
  obtain c ds where s: "str_nat (nat i) = c # ds"
    using str_nat_not_empty [of "nat i"] by (cases "str_nat (nat i)") auto
  have "c \<noteq> CHR ''-''"
    using hd_str_nat_not_minus [of "nat i"] s by simp
  moreover have "decimal_value (c # ds) = nat i"
    using decimal_value_str_nat [of "nat i"] s by simp
  ultimately show ?thesis
    using False s by (simp add: int_of_str_def str_int_def)
qed

section \<open>Claims on the bitmask decoders\<close>

text \<open>
  C3. The claim has \<open>scanning_mode\<close> raise a TranslationError for every flags value with
  bit \<open>0x10\<close> set. In \<^verbatim>\<open>_common.py\<close> the name \<^verbatim>\<open>TranslationError\<close> is not bound, so at
  the flags \<open>0x10\<close> the statement \<^verbatim>\<open>raise TranslationError(msg)\<close> raises a NameError
  and no TranslationError. With the bit clear the tuple is returned as claimed: at
  \<open>0xC5\<close> it is \<open>i_negative\<close>, \<open>j_positive\<close>, not \<open>j_consecutive\<close>, not
  \<open>i_alternative\<close>.
\<close>

theorem scanning_mode_raises_NameError:
  "scanning_mode common_globals 0x10 = Inl (NameError ''TranslationError'')
   \<and> scanning_mode common_globals 0x10 \<noteq>
       Inl (TranslationError
         ''Grid definition section 3 contains unsupported alternative row scanning mode'')
   \<and> scanning_mode common_globals 0xC5 =
       Inr \<lparr>i_negative = True, j_positive = True,
            j_consecutive = False, i_alternative = False\<rparr>"
  by (simp add: scanning_mode_bits common_globals_def)

text \<open>
  C8. The claim has \<open>resolution_flags\<close> return the three flags read from bits \<open>0x20\<close>,
  \<open>0x10\<close> and \<open>0x08\<close>. The body computes them and has no \<^verbatim>\<open>return\<close>: at the flags
  \<open>0x38\<close>, with the three bits set, the call yields \<open>None\<close> and no tuple.
\<close>

theorem resolution_flags_yields_None:
  "resolution_flags 0x38 = None
   \<and> resolution_flags 0x38 \<noteq>
       Some \<lparr>i_increments_given = True, j_increments_given = True, uv_resolved = True\<rparr>"
  by (simp add: resolution_flags_def Let_def)

section \<open>Claims on the dispatcher\<close>

text \<open>
  C1. For a message whose edition number is 1, \<open>convert\<close> is what \<open>grib1_convert\<close> does
  to the fresh metadata; for 2, what \<open>grib2_convert\<close> does to it; in both cases an
  exception of the converter is the outcome of \<open>convert\<close> and no metadata is returned.
  For every other edition number \<open>convert\<close> raises a TranslationError and returns no
  metadata; its message is \<^verbatim>\<open>GRIB edition N is not supported\<close>, where \<open>N\<close> is the decimal
  string of the edition number, which reads back as that number.
\<close>

theorem convert_dispatch:
  "(editionNumber (section0 f) = 1 \<longrightarrow>
      convert ns g2 f =
        (case grib1_convert ns f initial_metadata of
           (Inl e, _) \<Rightarrow> Inl e | (Inr _, md) \<Rightarrow> Inr md))
   \<and> (editionNumber (section0 f) = 2 \<longrightarrow>
      convert ns g2 f =
        (case g2 f initial_metadata of
           (Inl e, _) \<Rightarrow> Inl e | (Inr _, md) \<Rightarrow> Inr md))
   \<and> (editionNumber (section0 f) \<noteq> 1 \<and> editionNumber (section0 f) \<noteq> 2 \<longrightarrow>
      convert ns g2 f =
        Inl (TranslationError
          (''GRIB edition '' @ str_int (editionNumber (section0 f)) @ '' is not supported''))
      \<and> int_of_str (str_int (editionNumber (section0 f))) = editionNumber (section0 f))"
  by (simp add: convert_def Let_def int_of_str_str_int)

theorem convert_dispatch_witness:
  "convert edition1_globals skip_grib2 demo_message =
     (case grib1_convert edition1_globals demo_message initial_metadata of
        (Inl e, _) \<Rightarrow> Inl e | (Inr _, md) \<Rightarrow> Inr md)
   \<and> convert edition1_globals skip_grib2
        (demo_message\<lparr>section0 := \<lparr>editionNumber = 2\<rparr>\<rparr>) = Inr initial_metadata
   \<and> convert edition1_globals skip_grib2
        (demo_message\<lparr>section0 := \<lparr>editionNumber = 3\<rparr>\<rparr>) =
       Inl (TranslationError ''GRIB edition 3 is not supported'')
   \<and> int_of_str ''3'' = 3"
  using
    convert_dispatch [of demo_message edition1_globals skip_grib2]
    convert_dispatch [of "demo_message\<lparr>section0 := \<lparr>editionNumber = 2\<rparr>\<rparr>"
      edition1_globals skip_grib2]
    convert_dispatch [of "demo_message\<lparr>section0 := \<lparr>editionNumber = 3\<rparr>\<rparr>"
      edition1_globals skip_grib2]
  by (simp add: demo_message_def skip_grib2_def str_int_def str_nat.simps)


text \<open>
  C9. The claim has \<open>grib1_convert\<close> set the attribute \<open>centre\<close> for a centre code of
  the table and raise nothing in the lookup. The table of \<^verbatim>\<open>_common.py\<close> does map
  \<open>ecmf\<close> to \<open>European Centre for Medium Range Weather Forecasts\<close>, but
  \<^verbatim>\<open>_edition1.py\<close> does not bind \<^verbatim>\<open>_CENTRES\<close>: on the message with the centre
  \<open>ecmf\<close> the lookup raises a NameError and the attributes stay empty, and on a message
  with the unknown centre \<open>kwbc\<close> the lookup raises the same NameError.
\<close>

theorem centre_lookup_raises_NameError:
  "CENTRES ''ecmf'' = Some ''European Centre for Medium Range Weather Forecasts''
   \<and> grib1_convert edition1_globals demo_message initial_metadata =
       (Inl (NameError ''_CENTRES''), initial_metadata)
   \<and> attributes (snd (grib1_convert edition1_globals demo_message initial_metadata))
       ''centre'' = None
   \<and> fst (grib1_convert edition1_globals
            (demo_message\<lparr>section1 := \<lparr>centre = ''kwbc''\<rparr>\<rparr>) initial_metadata) =
       Inl (NameError ''_CENTRES'')"
  by (simp add: grib1_convert_in_file CENTRES_def initial_metadata_def)

section \<open>Claims on the regular latitude-longitude builder\<close>

text \<open>
  C2. The claim has the builder compute the longitudes \<open>0, -1, -2, -3\<close> for the
  increment 1, the offset 0, \<open>Ni = 4\<close> and \<open>i_negative\<close> set. On \<open>demo_section\<close>, which
  is that grid with the quasi-regular indicator unset and bit \<open>0x10\<close> clear, the builder
  raises the NameError of \<^verbatim>\<open>icoord_systems\<close> at its first statement: no point is computed
  and no coordinate is appended. The scale \<^verbatim>\<open>_GRID_ACCURACY_IN_DEGREES_GRIB1\<close> and \<^verbatim>\<open>np\<close>
  of the formula are not bound in the file either.
\<close>

theorem regular_ll_points_not_computed:
  "PLPresent demo_section = 0 \<and> \<not> bit (scanningMode demo_section) 4
   \<and> bit (scanningMode demo_section) 7 \<and> Ni demo_section = 4
   \<and> grid_definition_template_0 edition1_globals demo_section initial_metadata =
       (Inl (NameError ''icoord_systems''), initial_metadata)
   \<and> dim_coords_and_dims
       (snd (grid_definition_template_0 edition1_globals demo_section initial_metadata)) = []
   \<and> g_GRID_ACCURACY_IN_DEGREES_GRIB1 edition1_globals = None
   \<and> g_np edition1_globals = None"
  by (simp add: builder_in_file builder_unbound demo_section_def initial_metadata_def
      edition1_globals_def)

text \<open>
  C5. The claim has the builder raise a TranslationError for a section whose quasi-regular
  indicator is set. On \<open>demo_section\<close> with \<open>PLPresent = 1\<close> the builder raises the
  NameError of \<^verbatim>\<open>icoord_systems\<close>, read by the statement before the test of the
  indicator, and no TranslationError; \<^verbatim>\<open>TranslationError\<close> is not bound in the file
  either. The metadata is left unchanged, as claimed.
\<close>

theorem quasi_regular_grid_raises_NameError:
  "grid_definition_template_0 edition1_globals (demo_section\<lparr>PLPresent := 1\<rparr>) md =
     (Inl (NameError ''icoord_systems''), md)
   \<and> fst (grid_definition_template_0 edition1_globals (demo_section\<lparr>PLPresent := 1\<rparr>) md) \<noteq>
       Inl (TranslationError
         ''Grid definition section 2 contains unsupported quasi-regular grid'')
   \<and> g_TranslationError edition1_globals = None"
  by (simp add: builder_in_file builder_unbound edition1_globals_def)

text \<open>
  C6. The claim has the builder give the latitude the dimension index 0 and the longitude 1
  when \<open>j_consecutive\<close> (bit \<open>0x20\<close>) is clear, and the indices swapped when it is set.
  On \<open>demo_section\<close> with the scanning mode \<open>0x00\<close>, bit clear, and with \<open>0x20\<close>, bit
  set, the builder raises the NameError of \<^verbatim>\<open>icoord_systems\<close> and the metadata has no
  entry, so no index is assigned in either case.
\<close>

theorem dimension_indices_not_assigned:
  "grid_definition_template_0 edition1_globals
       (demo_section\<lparr>scanningMode := 0x00\<rparr>) initial_metadata =
     (Inl (NameError ''icoord_systems''), initial_metadata)
   \<and> grid_definition_template_0 edition1_globals
       (demo_section\<lparr>scanningMode := 0x20\<rparr>) initial_metadata =
     (Inl (NameError ''icoord_systems''), initial_metadata)
   \<and> dim_coords_and_dims
       (snd (grid_definition_template_0 edition1_globals
               (demo_section\<lparr>scanningMode := 0x20\<rparr>) initial_metadata)) = []"
  by (simp add: builder_in_file initial_metadata_def)

text \<open>
  C7. The claim has the longitude coordinate of the one degree grid of 360 longitudes from
  0 marked circular. On \<open>globe_section\<close> the builder raises the NameError of
  \<^verbatim>\<open>icoord_systems\<close> before any point is computed: no longitude coordinate is built and
  no circularity flag is set. \<^verbatim>\<open>_is_circular\<close>, which the builder would call, and
  \<^verbatim>\<open>DimCoord\<close>, which would take the flag, are not bound in the file.
\<close>

theorem circular_flag_not_set:
  "Ni globe_section = 360 \<and> iDirectionIncrement globe_section = 1
   \<and> longitudeOfFirstGridPoint globe_section = 0
   \<and> grid_definition_template_0 edition1_globals globe_section initial_metadata =
       (Inl (NameError ''icoord_systems''), initial_metadata)
   \<and> dim_coords_and_dims
       (snd (grid_definition_template_0 edition1_globals globe_section initial_metadata)) = []
   \<and> g_is_circular edition1_globals = None
   \<and> g_DimCoord edition1_globals = None"
  by (simp add: builder_in_file builder_unbound globe_section_def initial_metadata_def
      edition1_globals_def)


end
